theory Spec2Isabelle
  imports Complex_Main "HOL-Library.Multiset"
begin

section \<open>Errors\<close>

text \<open>
  The exceptions the two scripts can raise, as values. Every \<open>ValueError\<close> carries the
  reason the library gives for it.
\<close>

datatype value_error =
    NegativeRows            \<comment> \<open>\<open>sample\<close>: a negative number of rows requested\<close>
  | LargerThanPopulation    \<comment> \<open>\<open>sample\<close>: more rows requested than the frame holds\<close>
  | NegativeRepeats         \<comment> \<open>\<open>np.repeat\<close>: a negative repeat count\<close>

datatype error = ValueError value_error | TypeError | ZeroDivisionError

section \<open>Randomness\<close>

text \<open>
  Both scripts draw from the process-wide generator. The numbers a call consumes are an
  explicit argument here: \<open>randint\<close> is given one natural number, a draw of rows without
  replacement is given a list of them (a missing number reads as 0). Whatever the numbers
  are, \<open>randint k low high\<close> lies in the half-open range, and \<open>draw\<close> picks each position
  of the frame at most once.
\<close>

definition randint :: "nat \<Rightarrow> int \<Rightarrow> int \<Rightarrow> int" where
  "randint k low high = low + int k mod (high - low)"

fun draw :: "nat list \<Rightarrow> nat \<Rightarrow> 'a list \<Rightarrow> 'a list" where
  "draw ks 0 xs = []"
| "draw ks (Suc m) [] = []"
| "draw ks (Suc m) (x # xs) =
     (let k = (case ks of [] \<Rightarrow> 0 | k # _ \<Rightarrow> k);
          i = k mod length (x # xs)
      in (x # xs) ! i # draw (tl ks) m (take i (x # xs) @ drop (Suc i) (x # xs)))"

text \<open>
  \<open>DataFrame.sample(n)\<close> (no replacement, no weights): a negative \<open>n\<close> and an \<open>n\<close> larger
  than the frame are refused with a \<open>ValueError\<close>; otherwise \<open>n\<close> rows are drawn.
\<close>

definition sample :: "nat list \<Rightarrow> 'a list \<Rightarrow> int \<Rightarrow> error + 'a list" where
  "sample ks df n =
     (if n < 0 then Inl (ValueError NegativeRows)
      else if int (length df) < n then Inl (ValueError LargerThanPopulation)
      else Inr (draw ks (nat n) df))"

section \<open>The working dataset\<close>

text \<open>
  A row of \<open>lego_pile.csv\<close>: the five columns the preprocessing script keeps. A cell
  that is missing (NaN) is \<open>None\<close>.
\<close>

record lego =
  img_url :: "string option"
  part_name :: "string option"
  part_cat_name :: "string option"
  color_name :: "string option"
  rgb :: "string option"

type_synonym dataframe = "lego list"

section \<open>The physical model (app/main.py)\<close>

text \<open>
  Python's floats are modelled as real numbers with the rounding of every floating-point
  operation and literal made explicit: \<open>rnd\<close> maps the exact result to the float that
  stands for it, and is an argument of the model. With \<open>rnd = id\<close> the arithmetic is exact.
  Integer subtraction (\<open>shoe_size - 2\<close>) is exact; the integer is converted to a float
  when it is multiplied by one.
\<close>

definition get_area_of_foot :: "(real \<Rightarrow> real) \<Rightarrow> int \<Rightarrow> real" where
  "get_area_of_foot rnd shoe_size =
     (let foot_length = rnd (rnd (2 / 3) * rnd (of_int (shoe_size - 2)));
          foot_width = rnd (rnd 0.35 * foot_length)
      in rnd (foot_length * foot_width))"

text \<open>\<open>int(x)\<close> on a float truncates towards zero.\<close>

definition py_int :: "real \<Rightarrow> int" where
  "py_int x = (if 0 \<le> x then \<lfloor>x\<rfloor> else \<lceil>x\<rceil>)"

text \<open>
  The estimate of the number of pieces under two feet, plus \<open>randint(-10, 10)\<close>. The float
  division raises \<open>ZeroDivisionError\<close> on a zero divisor.
\<close>

definition get_num_legos_stepped_on :: "(real \<Rightarrow> real) \<Rightarrow> nat \<Rightarrow> int \<Rightarrow> error + int" where
  "get_num_legos_stepped_on rnd k shoe_size =
     (let area_of_foot = get_area_of_foot rnd shoe_size;
          area_of_lego_block = rnd (rnd 2.34 * rnd 2.34)
      in if area_of_lego_block = 0 then Inl ZeroDivisionError
         else
           (let num_legos_per_foot = rnd (area_of_foot / area_of_lego_block);
                num_legos_stepped_on = rnd (num_legos_per_foot * 2)
            in Inr (py_int num_legos_stepped_on + randint k (- 10) 10)))"

section \<open>Aggregations over the pieces stepped on (app/main.py)\<close>

text \<open>
  \<open>Series.value_counts()\<close>: one entry per distinct value that is not missing, with the
  number of its occurrences, most frequent first. Missing values are dropped (\<open>dropna\<close>
  is true by default). The library does not fix the order of entries of equal count; the
  model keeps them in the order of first appearance, and no statement below depends on it.
\<close>

definition first_occurrences :: "'a list \<Rightarrow> 'a list" where
  "first_occurrences xs = rev (remdups (rev xs))"

definition value_counts :: "'a option list \<Rightarrow> ('a \<times> nat) list" where
  "value_counts col =
     sort_key (\<lambda>(v, c). - int c)
       (map (\<lambda>v. (v, count_list col (Some v)))
          (first_occurrences (List.map_filter (\<lambda>v. v) col)))"

text \<open>
  \<open>get_lego_color_map\<close>: the distinct (colour name, rgb) pairs in order of first
  appearance, written one after the other into a dictionary, a later pair replacing an
  earlier one of the same name. \<open>"#" + row["rgb"]\<close> raises \<open>TypeError\<close> when the rgb cell
  is missing. Missing names share the key \<open>None\<close>.
\<close>

fun color_map_loop ::
  "(string option \<times> string option) list \<Rightarrow> (string option \<rightharpoonup> string) \<Rightarrow>
   error + (string option \<rightharpoonup> string)" where
  "color_map_loop [] color_mappings = Inr color_mappings"
| "color_map_loop ((c, None) # rows) color_mappings = Inl TypeError"
| "color_map_loop ((c, Some h) # rows) color_mappings =
     color_map_loop rows (color_mappings(c \<mapsto> ''#'' @ h))"

definition get_lego_color_map :: "dataframe \<Rightarrow> error + (string option \<rightharpoonup> string)" where
  "get_lego_color_map legos_stepped_on =
     (let colors = first_occurrences (map (\<lambda>r. (color_name r, rgb r)) legos_stepped_on)
      in color_map_loop colors Map.empty)"

text \<open>
  \<open>visualize_lego_colors\<close>: the data the treemap is built from, the counts per colour
  name and the colour of each tile. Drawing the figure is the plotting library's work.
\<close>

record treemap =
  counts :: "(string \<times> nat) list"
  color_discrete_map :: "string option \<rightharpoonup> string"

definition visualize_lego_colors :: "dataframe \<Rightarrow> error + treemap" where
  "visualize_lego_colors legos_stepped_on =
     (case get_lego_color_map legos_stepped_on of
        Inl err \<Rightarrow> Inl err
      | Inr color_map \<Rightarrow>
          Inr \<lparr>counts = value_counts (map color_name legos_stepped_on),
               color_discrete_map = color_map\<rparr>)"

text \<open>
  \<open>get_death_roll\<close>: the rows of the three figure categories, projected to part name and
  image. A missing category name is in none of them.
\<close>

record minifig =
  fig_part_name :: "string option"
  fig_img_url :: "string option"

definition get_death_roll :: "dataframe \<Rightarrow> minifig list" where
  "get_death_roll legos_stepped_on =
     map (\<lambda>r. \<lparr>fig_part_name = part_name r, fig_img_url = img_url r\<rparr>)
       (filter (\<lambda>r. part_cat_name r = Some ''Minifigs'' \<or>
                    part_cat_name r = Some ''Minifig Heads'' \<or>
                    part_cat_name r = Some ''Minidoll Heads'')
          legos_stepped_on)"

text \<open>
  \<open>DataFrame.dropna()\<close> with no arguments drops every row that has a missing cell in any
  column.
\<close>

definition dropna :: "minifig list \<Rightarrow> minifig list" where
  "dropna rows = filter (\<lambda>r. fig_part_name r \<noteq> None \<and> fig_img_url r \<noteq> None) rows"

text \<open>
  The featured enemy of \<open>render_death_roll\<close>: \<open>dropna().iloc[0]\<close> when \<open>dropna()\<close> has a
  row, nothing otherwise.
\<close>

definition featured_enemy :: "minifig list \<Rightarrow> minifig option" where
  "featured_enemy minifigs_vanquished =
     (if length (dropna minifigs_vanquished) > 0
      then Some (hd (dropna minifigs_vanquished)) else None)"

definition render_death_roll :: "dataframe \<Rightarrow> minifig option" where
  "render_death_roll legos_stepped_on = featured_enemy (get_death_roll legos_stepped_on)"

text \<open>
  \<open>Series.str.contains("Duplo")\<close>: the pattern has no regular-expression operator, so it
  matches a name exactly when the name has it as a contiguous, case-sensitive substring.
  A missing name gives a missing answer, which \<open>sum()\<close> skips. The column holds strings,
  as it does in every frame that has at least one category name.
\<close>

fun starts_with :: "string \<Rightarrow> string \<Rightarrow> bool" where
  "starts_with [] s = True"
| "starts_with (p # ps) [] = False"
| "starts_with (p # ps) (c # cs) = (p = c \<and> starts_with ps cs)"

fun str_contains :: "string \<Rightarrow> string \<Rightarrow> bool" where
  "str_contains pat [] = starts_with pat []"
| "str_contains pat (c # cs) = (starts_with pat (c # cs) \<or> str_contains pat cs)"

definition is_duplo :: "lego \<Rightarrow> bool" where
  "is_duplo r = (case part_cat_name r of None \<Rightarrow> False | Some name \<Rightarrow> str_contains ''Duplo'' name)"

definition calculate_damage :: "dataframe \<Rightarrow> int" where
  "calculate_damage legos_stepped_on =
     (let base_damage = int (length legos_stepped_on);
          duplo_damage = int (length (filter is_duplo legos_stepped_on))
      in base_damage + duplo_damage)"

section \<open>One trial (app/main.py)\<close>

text \<open>
  The random numbers one trial consumes, in the order the code asks for them: the offset of
  the estimate, the base draw, the draw of the token minifig head.
\<close>

record entropy =
  offset_draw :: nat
  base_draw :: "nat list"
  token_draw :: "nat list"

definition is_token_candidate :: "lego \<Rightarrow> bool" where
  "is_token_candidate r = (part_cat_name r = Some ''Minifig Heads'' \<and> img_url r \<noteq> None)"

text \<open>
  \<open>get_legos_stepped_on\<close>. The select box starts with no value, so the shoe size is
  optional, and \<open>None - 2\<close> raises \<open>TypeError\<close>. Without a step the function returns
  nothing. With one it returns the frame and shows the number of pieces; the result holds
  both. There is no handler in the function: the first error ends it.
\<close>

definition get_legos_stepped_on ::
  "(real \<Rightarrow> real) \<Rightarrow> entropy \<Rightarrow> bool \<Rightarrow> int option \<Rightarrow> dataframe \<Rightarrow>
   error + (dataframe \<times> int) option" where
  "get_legos_stepped_on rnd e take_a_step choose_shoe_size dump_out_legos =
     (if take_a_step then
        (case choose_shoe_size of
           None \<Rightarrow> Inl TypeError
         | Some shoe_size \<Rightarrow>
             (case get_num_legos_stepped_on rnd (offset_draw e) shoe_size of
                Inl err \<Rightarrow> Inl err
              | Inr num_legos_stepped_on \<Rightarrow>
                  (case sample (base_draw e) dump_out_legos num_legos_stepped_on of
                     Inl err \<Rightarrow> Inl err
                   | Inr legos_stepped_on \<Rightarrow>
                       (case sample (token_draw e)
                               (filter is_token_candidate dump_out_legos) 1 of
                          Inl err \<Rightarrow> Inl err
                        | Inr token_minifig \<Rightarrow>
                            Inr (Some (legos_stepped_on @ token_minifig,
                                       num_legos_stepped_on + 1))))))
      else Inr None)"

section \<open>The catalog builder (preprocess/create_tailored_data.py)\<close>

text \<open>
  The four tables read from the raw files, with the columns the script keeps. The key
  columns and the quantity hold a value in every row; a name, an rgb code or an image may
  be missing.
\<close>

record inventory_part =
  inv_part_num :: string
  inv_color_id :: int
  quantity :: int
  inv_img_url :: "string option"

record part =
  part_num :: string
  name_of_part :: "string option"
  part_cat_id :: int

record part_category =
  cat_id :: int
  name_of_cat :: "string option"

record color =
  col_id :: int
  name_of_color :: "string option"
  col_rgb :: "string option"

text \<open>\<open>np.repeat(1, q)\<close>: an array of \<open>q\<close> ones; a negative \<open>q\<close> is a \<open>ValueError\<close>.\<close>

definition np_repeat :: "int \<Rightarrow> int \<Rightarrow> error + int list" where
  "np_repeat a q =
     (if q < 0 then Inl (ValueError NegativeRepeats) else Inr (replicate (nat q) a))"

text \<open>
  \<open>quantity.apply(lambda q: np.repeat(1, q))\<close>: every quantity cell is replaced by its
  array, row after row; the first error ends the script.
\<close>

fun apply_repeat :: "inventory_part list \<Rightarrow> error + (inventory_part \<times> int list) list" where
  "apply_repeat [] = Inr []"
| "apply_repeat (r # rs) =
     (case np_repeat 1 (quantity r) of
        Inl err \<Rightarrow> Inl err
      | Inr ones \<Rightarrow>
          (case apply_repeat rs of
             Inl err \<Rightarrow> Inl err
           | Inr rows \<Rightarrow> Inr ((r, ones) # rows)))"

text \<open>
  \<open>DataFrame.explode\<close>: a row whose cell holds a list becomes one row per element of
  the list, in order. A row whose list is empty is kept as one row with a missing cell.
\<close>

fun explode_row :: "'r \<Rightarrow> 'a list \<Rightarrow> ('r \<times> 'a option) list" where
  "explode_row r [] = [(r, None)]"
| "explode_row r (v # vs) = map (\<lambda>u. (r, Some u)) (v # vs)"

definition explode :: "('r \<times> 'a list) list \<Rightarrow> ('r \<times> 'a option) list" where
  "explode rows = concat (map (\<lambda>(r, vs). explode_row r vs) rows)"

text \<open>A unit piece: an exploded row after \<open>drop("quantity", axis=1)\<close>.\<close>

record piece =
  pc_part_num :: string
  pc_color_id :: int
  pc_img_url :: "string option"

definition drop_quantity :: "inventory_part \<times> int option \<Rightarrow> piece" where
  "drop_quantity row =
     \<lparr>pc_part_num = inv_part_num (fst row), pc_color_id = inv_color_id (fst row),
      pc_img_url = inv_img_url (fst row)\<rparr>"

definition explode_inventory_parts :: "inventory_part list \<Rightarrow> error + piece list" where
  "explode_inventory_parts inventory_parts =
     (case apply_repeat inventory_parts of
        Inl err \<Rightarrow> Inl err
      | Inr rows \<Rightarrow> Inr (map drop_quantity (explode rows)))"

text \<open>
  \<open>left.merge(right, how="left")\<close> on one key column: the rows of the left frame in their
  order, each once per row of the right frame with an equal key, or once with the right
  columns missing when no key is equal.
\<close>

definition merge_left :: "('l \<Rightarrow> 'k) \<Rightarrow> ('r \<Rightarrow> 'k) \<Rightarrow> 'l list \<Rightarrow> 'r list \<Rightarrow> ('l \<times> 'r option) list" where
  "merge_left left_on right_on left right =
     concat (map (\<lambda>l. case filter (\<lambda>r. right_on r = left_on l) right of
                            [] \<Rightarrow> [(l, None)]
                          | m # ms \<Rightarrow> map (\<lambda>r. (l, Some r)) (m # ms))
               left)"

text \<open>
  The three merges and the projection to the five columns kept. After the first merge the
  category id of a piece is missing when its part number is in no row of \<open>parts\<close>; a
  missing id equals no id of \<open>part_categories\<close>.
\<close>

definition merge_tables ::
  "piece list \<Rightarrow> part list \<Rightarrow> part_category list \<Rightarrow> color list \<Rightarrow> dataframe" where
  "merge_tables inventory_parts parts part_categories colors =
     (let with_parts = merge_left pc_part_num part_num inventory_parts parts;
          with_cats =
            merge_left (\<lambda>(pc, p). map_option part_cat_id p) (\<lambda>c. Some (cat_id c))
              with_parts part_categories;
          with_colors =
            merge_left (\<lambda>((pc, p), c). pc_color_id pc) col_id with_cats colors
      in map (\<lambda>(((pc, p), c), col).
                \<lparr>img_url = pc_img_url pc,
                 part_name = Option.bind p name_of_part,
                 part_cat_name = Option.bind c name_of_cat,
                 color_name = Option.bind col name_of_color,
                 rgb = Option.bind col col_rgb\<rparr>)
           with_colors)"

text \<open>
  The two filters: \<open>lego_pile[~(lego_pile.part_cat_name == "Other")]\<close> and the same for
  \<open>"Stickers"\<close>. A missing name equals neither, so its row stays.
\<close>

definition remove_non_lego :: "dataframe \<Rightarrow> dataframe" where
  "remove_non_lego lego_pile =
     filter (\<lambda>r. \<not> (part_cat_name r = Some ''Stickers''))
       (filter (\<lambda>r. \<not> (part_cat_name r = Some ''Other'')) lego_pile)"

text \<open>
  The script up to the frame it writes, with the size of the final sample as an argument;
  \<open>main\<close> asks for 800000 rows. \<open>ks\<close> are the random numbers the sample consumes.
\<close>

definition create_tailored_data ::
  "int \<Rightarrow> nat list \<Rightarrow> inventory_part list \<Rightarrow> part list \<Rightarrow> part_category list \<Rightarrow> color list \<Rightarrow>
   error + dataframe" where
  "create_tailored_data n ks inventory_parts parts part_categories colors =
     (case explode_inventory_parts inventory_parts of
        Inl err \<Rightarrow> Inl err
      | Inr pieces \<Rightarrow>
          sample ks (remove_non_lego (merge_tables pieces parts part_categories colors)) n)"

definition main ::
  "nat list \<Rightarrow> inventory_part list \<Rightarrow> part list \<Rightarrow> part_category list \<Rightarrow> color list \<Rightarrow>
   error + dataframe" where
  "main = create_tailored_data 800000"

section \<open>Example inputs\<close>

definition brick :: lego where
  "brick = \<lparr>img_url = Some ''3001.png'', part_name = Some ''Brick 2 x 4'',
     part_cat_name = Some ''Bricks'', color_name = Some ''Red'', rgb = Some ''C91A09''\<rparr>"

definition duplo_brick :: lego where
  "duplo_brick = \<lparr>img_url = None, part_name = Some ''Duplo Brick 2 x 2'',
     part_cat_name = Some ''Duplo Bricks'', color_name = Some ''Blue'', rgb = Some ''0055BF''\<rparr>"

definition minifig_head :: lego where
  "minifig_head = \<lparr>img_url = Some ''3626.png'', part_name = Some ''Minifig Head'',
     part_cat_name = Some ''Minifig Heads'', color_name = Some ''Yellow'',
     rgb = Some ''F2CD37''\<rparr>"

definition unnamed_color_brick :: lego where
  "unnamed_color_brick = \<lparr>img_url = None, part_name = Some ''Brick 1 x 1'',
     part_cat_name = Some ''Bricks'', color_name = None, rgb = Some ''FFFFFF''\<rparr>"

definition nameless_head :: lego where
  "nameless_head = \<lparr>img_url = Some ''3626.png'', part_name = None,
     part_cat_name = Some ''Minifig Heads'', color_name = Some ''Yellow'',
     rgb = Some ''F2CD37''\<rparr>"

definition example_pile :: dataframe where
  "example_pile = [brick, minifig_head, duplo_brick, duplo_brick, brick]"

definition headless_pile :: dataframe where
  "headless_pile = [brick, duplo_brick, duplo_brick, brick]"

definition example_entropy :: entropy where
  "example_entropy = \<lparr>offset_draw = 13, base_draw = [2, 0, 4], token_draw = [0]\<rparr>"

definition unlucky_entropy :: entropy where
  "unlucky_entropy = \<lparr>offset_draw = 0, base_draw = [], token_draw = []\<rparr>"

definition sticker_sheet :: lego where
  "sticker_sheet = \<lparr>img_url = None, part_name = Some ''Sticker Sheet'',
     part_cat_name = Some ''Stickers'', color_name = Some ''Red'', rgb = Some ''C91A09''\<rparr>"


definition example_inventory :: "inventory_part list" where
  "example_inventory =
     [\<lparr>inv_part_num = ''3001'', inv_color_id = 4, quantity = 2,
        inv_img_url = Some ''3001.png''\<rparr>,
      \<lparr>inv_part_num = ''stk01'', inv_color_id = 4, quantity = 1, inv_img_url = None\<rparr>]"



definition single_duplo_entropy :: entropy where
  "single_duplo_entropy = \<lparr>offset_draw = 11, base_draw = [], token_draw = []\<rparr>"

definition spare_inventory :: "inventory_part list" where
  "spare_inventory =
     [\<lparr>inv_part_num = ''3001'', inv_color_id = 4, quantity = 0,
        inv_img_url = Some ''3001.png''\<rparr>]"

definition example_parts :: "part list" where
  "example_parts =
     [\<lparr>part_num = ''3001'', name_of_part = Some ''Brick 2 x 4'', part_cat_id = 11\<rparr>,
      \<lparr>part_num = ''stk01'', name_of_part = Some ''Sticker Sheet'', part_cat_id = 58\<rparr>]"

definition example_categories :: "part_category list" where
  "example_categories =
     [\<lparr>cat_id = 11, name_of_cat = Some ''Bricks''\<rparr>,
      \<lparr>cat_id = 58, name_of_cat = Some ''Stickers''\<rparr>]"

definition example_colors :: "color list" where
  "example_colors =
     [\<lparr>col_id = 4, name_of_color = Some ''Red'', col_rgb = Some ''C91A09''\<rparr>]"

section \<open>Drawing without replacement\<close>

lemma draw_step:
  "draw ks (Suc m) (x # xs) =
     (x # xs) ! ((case ks of [] \<Rightarrow> 0 | k # _ \<Rightarrow> k) mod length (x # xs)) #
     draw (tl ks) m
       (take ((case ks of [] \<Rightarrow> 0 | k # _ \<Rightarrow> k) mod length (x # xs)) (x # xs) @
        drop (Suc ((case ks of [] \<Rightarrow> 0 | k # _ \<Rightarrow> k) mod length (x # xs))) (x # xs))"
  by (simp only: draw.simps Let_def)

lemma mset_remove_nth:
  assumes "i < length ys"
  shows "mset ys = add_mset (ys ! i) (mset (take i ys @ drop (Suc i) ys))"
proof -
  have "mset ys = mset (take i ys @ ys ! i # drop (Suc i) ys)"
    using id_take_nth_drop [OF assms] by (rule arg_cong)
  then show ?thesis by simp
qed

lemma length_draw: "length (draw ks m xs) = min m (length xs)"
proof (induction ks m xs rule: draw.induct)
  case (3 ks m x xs)
  define i where "i = (case ks of [] \<Rightarrow> 0 | k # _ \<Rightarrow> k) mod length (x # xs)"
  have i: "i < length (x # xs)" unfolding i_def by simp
  have IH: "length (draw (tl ks) m (take i (x # xs) @ drop (Suc i) (x # xs)))
            = min m (length (take i (x # xs) @ drop (Suc i) (x # xs)))"
    using 3 [OF refl i_def] .
  have "length (take i (x # xs) @ drop (Suc i) (x # xs)) = length xs"
    using i by simp
  then show ?case
    unfolding draw_step i_def [symmetric] using IH by simp
qed simp_all

lemma mset_draw: "mset (draw ks m xs) \<subseteq># mset xs"
proof (induction ks m xs rule: draw.induct)
  case (3 ks m x xs)
  define i where "i = (case ks of [] \<Rightarrow> 0 | k # _ \<Rightarrow> k) mod length (x # xs)"
  have i: "i < length (x # xs)" unfolding i_def by simp
  have IH: "mset (draw (tl ks) m (take i (x # xs) @ drop (Suc i) (x # xs)))
            \<subseteq># mset (take i (x # xs) @ drop (Suc i) (x # xs))"
    using 3 [OF refl i_def] .
  have "mset ((x # xs) ! i # draw (tl ks) m (take i (x # xs) @ drop (Suc i) (x # xs)))
        \<subseteq># mset (x # xs)"
    using IH mset_remove_nth [OF i]
    by (metis mset.simps(2) mset_subset_eq_add_mset_cancel)
  then show ?case unfolding draw_step i_def [symmetric] .
qed simp_all

lemma sample_Inr:
  assumes "sample ks df n = Inr rows"
  shows "0 \<le> n" and "n \<le> int (length df)" and "rows = draw ks (nat n) df"
    and "int (length rows) = n" and "mset rows \<subseteq># mset df"
proof -
  show n0: "0 \<le> n" and nl: "n \<le> int (length df)" and r: "rows = draw ks (nat n) df"
    using assms by (auto simp: sample_def split: if_splits)
  show "int (length rows) = n" using n0 nl by (simp add: r length_draw)
  show "mset rows \<subseteq># mset df" unfolding r by (rule mset_draw)
qed

lemma sample_set:
  assumes "sample ks df n = Inr rows"
  shows "set rows \<subseteq> set df"
  using set_mset_mono [OF sample_Inr(5) [OF assms]] by simp

lemma sample_one:
  assumes "sample ks df 1 = Inr rows"
  shows "\<exists>t. rows = [t] \<and> t \<in> set df"
proof -
  have "length rows = 1" using sample_Inr(4) [OF assms] by simp
  then obtain t where t: "rows = [t]" by (cases rows) auto
  then have "t \<in> set df" using sample_set [OF assms] by simp
  with t show ?thesis by blast
qed


lemma sample_negative: "n < 0 \<Longrightarrow> sample ks df n = Inl (ValueError NegativeRows)"
  by (simp add: sample_def)

lemma sample_empty_one: "sample ks [] 1 = Inl (ValueError LargerThanPopulation)"
  by (simp add: sample_def)

section \<open>Substrings\<close>

lemma starts_with_iff: "starts_with pat s \<longleftrightarrow> (\<exists>suf. s = pat @ suf)"
  by (induction pat s rule: starts_with.induct) auto

lemma str_contains_iff: "str_contains pat s \<longleftrightarrow> (\<exists>pre suf. s = pre @ pat @ suf)"
proof (induction s)
  case Nil
  show ?case by (simp add: starts_with_iff)
next
  case (Cons c cs)
  show ?case
  proof
    assume "str_contains pat (c # cs)"
    then consider "starts_with pat (c # cs)" | "str_contains pat cs" by auto
    then show "\<exists>pre suf. c # cs = pre @ pat @ suf"
    proof cases
      case 1
      then obtain suf where "c # cs = pat @ suf" unfolding starts_with_iff ..
      then have "c # cs = [] @ pat @ suf" by simp
      then show ?thesis by blast
    next
      case 2
      then obtain pre suf where "cs = pre @ pat @ suf" using Cons.IH by blast
      then have "c # cs = (c # pre) @ pat @ suf" by simp
      then show ?thesis by blast
    qed
  next
    assume "\<exists>pre suf. c # cs = pre @ pat @ suf"
    then obtain pre suf where e: "c # cs = pre @ pat @ suf" by blast
    show "str_contains pat (c # cs)"
    proof (cases pre)
      case Nil
      with e have "starts_with pat (c # cs)" unfolding starts_with_iff by auto
      then show ?thesis by simp
    next
      case (Cons p pre')
      with e have "cs = pre' @ pat @ suf" by simp
      then have "str_contains pat cs" using Cons.IH by blast
      then show ?thesis by simp
    qed
  qed
qed

lemma is_duplo_iff:
  "is_duplo r \<longleftrightarrow> (\<exists>pre suf. part_cat_name r = Some (pre @ ''Duplo'' @ suf))"
  by (cases "part_cat_name r") (simp_all add: is_duplo_def str_contains_iff)

section \<open>Counting values\<close>

lemma set_first_occurrences: "set (first_occurrences xs) = set xs"
  by (simp add: first_occurrences_def)

lemma distinct_first_occurrences: "distinct (first_occurrences xs)"
  by (simp add: first_occurrences_def)

lemma count_list_Some_map_filter:
  "count_list col (Some v) = count_list (List.map_filter (\<lambda>v. v) col) v"
  by (induction col) (auto simp: List.map_filter_simps split: option.splits)

lemma length_map_filter_id:
  "length (List.map_filter (\<lambda>v. v) col) = length (filter (\<lambda>v. v \<noteq> None) col)"
  by (induction col) (auto simp: List.map_filter_simps split: option.splits)

lemma sum_value_counts:
  "sum_list (map snd (value_counts col)) = length (filter (\<lambda>v. v \<noteq> None) col)"
proof -
  define vs where "vs = List.map_filter (\<lambda>v. v) col"
  have "sum_list (map snd (value_counts col))
      = sum_mset (image_mset snd (mset (value_counts col)))"
    by (metis mset_map sum_mset_sum_list)
  also have "\<dots> = sum_mset (image_mset snd
      (mset (map (\<lambda>v. (v, count_list col (Some v))) (first_occurrences vs))))"
    by (simp add: value_counts_def vs_def)
  also have "\<dots> = (\<Sum>v\<leftarrow>first_occurrences vs. count_list vs v)"
    by (simp add: sum_mset_sum_list [symmetric] count_list_Some_map_filter vs_def comp_def
       flip: mset_map)
  also have "\<dots> = sum (count_list vs) (set vs)"
    by (simp add: sum_list_distinct_conv_sum_set distinct_first_occurrences
       set_first_occurrences)
  also have "\<dots> = length vs" by (rule sum_count_set) simp_all
  finally show ?thesis by (simp add: vs_def length_map_filter_id)
qed

section \<open>The physical model\<close>

lemma rnd_nonneg: "mono rnd \<Longrightarrow> rnd 0 = 0 \<Longrightarrow> 0 \<le> x \<Longrightarrow> 0 \<le> rnd (x::real)"
  by (metis monoD)

text \<open>
  C10. The area of the foot is monotonically non-decreasing in the shoe size from size 2
  on: for shoe sizes \<open>2 \<le> a \<le> b\<close> the area for \<open>a\<close> is at most the area for \<open>b\<close>. This
  holds for exact arithmetic and for every rounding that is monotone and leaves 0 as it
  is, as rounding to the nearest float does.
\<close>

theorem get_area_of_foot_mono:
  fixes rnd :: "real \<Rightarrow> real"
  assumes m: "mono rnd" and z: "rnd 0 = 0" and a: "2 \<le> a" and ab: "a \<le> b"
  shows "get_area_of_foot rnd a \<le> get_area_of_foot rnd b"
proof -
  define c1 where "c1 = rnd (2 / 3)"
  define c2 where "c2 = rnd 0.35"
  define xa where "xa = rnd (of_int (a - 2))"
  define xb where "xb = rnd (of_int (b - 2))"
  define la where "la = rnd (c1 * xa)"
  define lb where "lb = rnd (c1 * xb)"
  define wa where "wa = rnd (c2 * la)"
  define wb where "wb = rnd (c2 * lb)"
  have c1: "0 \<le> c1" unfolding c1_def by (rule rnd_nonneg [OF m z]) simp
  have c2: "0 \<le> c2" unfolding c2_def by (rule rnd_nonneg [OF m z]) simp
  have xa0: "0 \<le> xa" unfolding xa_def by (rule rnd_nonneg [OF m z]) (use a in simp)
  have xab: "xa \<le> xb" unfolding xa_def xb_def by (rule monoD [OF m]) (use ab in simp)
  have la0: "0 \<le> la" unfolding la_def
    by (rule rnd_nonneg [OF m z]) (rule mult_nonneg_nonneg [OF c1 xa0])
  have lab: "la \<le> lb" unfolding la_def lb_def
    by (rule monoD [OF m]) (rule mult_left_mono [OF xab c1])
  have wa0: "0 \<le> wa" unfolding wa_def
    by (rule rnd_nonneg [OF m z]) (rule mult_nonneg_nonneg [OF c2 la0])
  have wab: "wa \<le> wb" unfolding wa_def wb_def
    by (rule monoD [OF m]) (rule mult_left_mono [OF lab c2])
  have lb0: "0 \<le> lb" using la0 lab by simp
  have "la * wa \<le> lb * wb" by (rule mult_mono [OF lab wab lb0 wa0])
  then have "rnd (la * wa) \<le> rnd (lb * wb)" by (rule monoD [OF m])
  then show ?thesis
    by (simp add: get_area_of_foot_def Let_def c1_def c2_def xa_def xb_def la_def lb_def
        wa_def wb_def)
qed

theorem get_area_of_foot_mono_witness:
  "mono (id :: real \<Rightarrow> real) \<and> id (0::real) = 0 \<and> (2::int) \<le> 30 \<and> (30::int) \<le> 42 \<and>
   get_area_of_foot id 30 = 5488 / 45 \<and> get_area_of_foot id 42 = 11200 / 45 \<and>
   get_area_of_foot id 30 \<le> get_area_of_foot id 42"
proof -
  have m: "mono (id :: real \<Rightarrow> real)" by (simp add: mono_def)
  have z: "id (0::real) = 0" by simp
  have le: "get_area_of_foot id 30 \<le> get_area_of_foot id 42"
    by (rule get_area_of_foot_mono [OF m z]) simp_all
  have v30: "get_area_of_foot id 30 = 5488 / 45" by (simp add: get_area_of_foot_def Let_def)
  have v42: "get_area_of_foot id 42 = 11200 / 45" by (simp add: get_area_of_foot_def Let_def)
  show ?thesis using m le v30 v42 by simp
qed

section \<open>Damage\<close>

text \<open>
  C2. The damage of a result is its number of rows plus the number of its rows whose
  category name has \<open>Duplo\<close> as a substring. So the damage is at least the number of
  rows, and equal to it exactly when no category name in the result contains \<open>Duplo\<close>.
\<close>

theorem calculate_damage_duplo:
  "calculate_damage df =
     int (length df) +
     int (length (filter (\<lambda>r. \<exists>pre suf. part_cat_name r = Some (pre @ ''Duplo'' @ suf)) df)) \<and>
   int (length df) \<le> calculate_damage df \<and>
   (calculate_damage df = int (length df) \<longleftrightarrow>
      \<not> (\<exists>r \<in> set df. \<exists>pre suf. part_cat_name r = Some (pre @ ''Duplo'' @ suf)))"
proof -
  have eq: "(\<lambda>r. \<exists>pre suf. part_cat_name r = Some (pre @ ''Duplo'' @ suf)) = is_duplo"
    by (rule ext) (rule is_duplo_iff [symmetric])
  have d: "calculate_damage df = int (length df) + int (length (filter is_duplo df))"
    by (simp add: calculate_damage_def Let_def)
  have e: "(length (filter is_duplo df) = 0) = (\<not> (\<exists>r \<in> set df. is_duplo r))"
    by (simp add: filter_empty_conv)
  show ?thesis
    unfolding eq d using e by simp
qed

theorem calculate_damage_duplo_witness:
  "calculate_damage [duplo_brick, brick, duplo_brick, brick, brick] = 7"
proof -
  have eq: "(\<lambda>r. \<exists>pre suf. part_cat_name r = Some (pre @ ''Duplo'' @ suf)) = is_duplo"
    by (rule ext) (rule is_duplo_iff [symmetric])
  have c: "is_duplo duplo_brick" "\<not> is_duplo brick"
    by (simp_all add: is_duplo_def duplo_brick_def brick_def)
  have "calculate_damage [duplo_brick, brick, duplo_brick, brick, brick] =
      int (length [duplo_brick, brick, duplo_brick, brick, brick]) +
      int (length (filter is_duplo [duplo_brick, brick, duplo_brick, brick, brick]))"
    using calculate_damage_duplo [of "[duplo_brick, brick, duplo_brick, brick, brick]"]
    unfolding eq by (rule conjunct1)
  then show ?thesis using c by simp
qed

section \<open>Colour counts\<close>

text \<open>
  C7, as the code has it. The counts of the treemap sum to the number of rows of the
  result whose colour name is not missing: \<open>value_counts\<close> leaves rows without a colour
  name out. They sum to the number of rows when every row has a colour name.
\<close>

theorem color_counts_sum:
  assumes "visualize_lego_colors df = Inr fig"
  shows "sum_list (map snd (counts fig)) = length (filter (\<lambda>r. color_name r \<noteq> None) df)"
proof -
  have "counts fig = value_counts (map color_name df)"
    using assms by (auto simp: visualize_lego_colors_def split: sum.splits)
  then show ?thesis
    by (simp add: sum_value_counts filter_map comp_def)
qed

lemma example_color_map: "\<exists>m. get_lego_color_map example_pile = Inr m"
  by (simp add: get_lego_color_map_def first_occurrences_def example_pile_def brick_def
      minifig_head_def duplo_brick_def)

lemma example_counts:
  "value_counts (map color_name example_pile) = [(''Red'', 2), (''Blue'', 2), (''Yellow'', 1)]"
  by (simp add: value_counts_def first_occurrences_def example_pile_def brick_def
      minifig_head_def duplo_brick_def List.map_filter_simps)

theorem color_counts_sum_witness:
  "map_sum id counts (visualize_lego_colors example_pile) =
     Inr [(''Red'', 2), (''Blue'', 2), (''Yellow'', 1)] \<and>
   length (filter (\<lambda>r. color_name r \<noteq> None) example_pile) = 5"
proof -
  from example_color_map obtain m where "get_lego_color_map example_pile = Inr m" ..
  then have fig: "visualize_lego_colors example_pile =
      Inr \<lparr>counts = [(''Red'', 2), (''Blue'', 2), (''Yellow'', 1)], color_discrete_map = m\<rparr>"
    by (simp add: visualize_lego_colors_def example_counts)
  have "length (filter (\<lambda>r. color_name r \<noteq> None) example_pile) = 5"
    using color_counts_sum [OF fig] by simp
  then show ?thesis using fig by simp
qed

theorem color_counts_sum_counterexample:
  "map_sum id counts (visualize_lego_colors [unnamed_color_brick]) = Inr [] \<and>
   length [unnamed_color_brick] = 1"
  by (simp add: visualize_lego_colors_def get_lego_color_map_def first_occurrences_def
      value_counts_def unnamed_color_brick_def List.map_filter_simps)

section \<open>The featured enemy\<close>

lemma hd_filter_find:
  "(if length (filter P xs) > 0 then Some (hd (filter P xs)) else None) = List.find P xs"
  by (induction xs) (auto split: if_splits)

lemma featured_enemy_named:
  assumes "\<forall>r\<in>set rows. fig_part_name r \<noteq> None"
  shows "featured_enemy rows = List.find (\<lambda>r. fig_img_url r \<noteq> None) rows"
proof -
  have "dropna rows = filter (\<lambda>r. fig_img_url r \<noteq> None) rows"
    unfolding dropna_def using assms by (intro filter_cong refl) simp
  then show ?thesis
    unfolding featured_enemy_def by (simp only: hd_filter_find)
qed

text \<open>
  C8 at the input where the code leaves the claim: a death roll whose only row has an
  image but no part name. The row has a non-null image reference, yet \<open>dropna()\<close> removes it
  and no featured enemy is shown.
\<close>

theorem featured_enemy_nameless_head:
  "get_death_roll [nameless_head] =
     [\<lparr>fig_part_name = None, fig_img_url = Some ''3626.png''\<rparr>] \<and>
   render_death_roll [nameless_head] = None"
  by (simp add: render_death_roll_def featured_enemy_def dropna_def get_death_roll_def
      nameless_head_def)

section \<open>One trial\<close>

lemma get_legos_stepped_on_Inr:
  assumes "get_legos_stepped_on rnd e True (Some shoe_size) df = Inr out"
  shows "\<exists>n base token.
           get_num_legos_stepped_on rnd (offset_draw e) shoe_size = Inr n \<and>
           sample (base_draw e) df n = Inr base \<and>
           sample (token_draw e) (filter is_token_candidate df) 1 = Inr token \<and>
           out = Some (base @ token, n + 1)"
  using assms by (auto simp: get_legos_stepped_on_def split: sum.splits)

text \<open>
  C1. A trial that succeeds has drawn \<open>n\<close> base rows from the working dataset without
  replacement, \<open>n\<close> being the estimated piece count, and one token row from the rows of the
  dataset whose category name is \<open>Minifig Heads\<close> and whose image is not missing; the token
  draw uses random numbers of its own. The result is the base rows followed by the token
  row: it has \<open>n + 1\<close> rows, and the count shown is \<open>n + 1\<close>.
\<close>

theorem step_rows_and_count:
  assumes "get_legos_stepped_on rnd e True (Some shoe_size) df = Inr (Some (result, reported))"
  shows "\<exists>n base token.
           get_num_legos_stepped_on rnd (offset_draw e) shoe_size = Inr n \<and>
           base = draw (base_draw e) (nat n) df \<and>
           int (length base) = n \<and>
           mset base \<subseteq># mset df \<and>
           [token] = draw (token_draw e) 1 (filter is_token_candidate df) \<and>
           token \<in> set df \<and>
           part_cat_name token = Some ''Minifig Heads'' \<and>
           img_url token \<noteq> None \<and>
           result = base @ [token] \<and>
           int (length result) = n + 1 \<and>
           reported = n + 1"
proof -
  from get_legos_stepped_on_Inr [OF assms] obtain n base token where
    n: "get_num_legos_stepped_on rnd (offset_draw e) shoe_size = Inr n" and
    b: "sample (base_draw e) df n = Inr base" and
    t: "sample (token_draw e) (filter is_token_candidate df) 1 = Inr token" and
    r: "result = base @ token" "reported = n + 1"
    by auto
  from sample_one [OF t] obtain tok where
    tok: "token = [tok]" "tok \<in> set (filter is_token_candidate df)"
    by blast
  have d: "[tok] = draw (token_draw e) 1 (filter is_token_candidate df)"
    using sample_Inr(3) [OF t] tok(1) by simp
  have c: "tok \<in> set df" "part_cat_name tok = Some ''Minifig Heads''" "img_url tok \<noteq> None"
    using tok(2) by (simp_all add: is_token_candidate_def)
  have l: "int (length (base @ [tok])) = n + 1"
    using sample_Inr(4) [OF b] by simp
  show ?thesis
    using n sample_Inr(3) [OF b] sample_Inr(4) [OF b] sample_Inr(5) [OF b] d c l r tok(1)
    by blast
qed

lemma step_succeeds:
  assumes "get_num_legos_stepped_on rnd (offset_draw e) shoe_size = Inr n"
    and "0 \<le> n" and "n \<le> int (length df)" and "filter is_token_candidate df \<noteq> []"
  shows "\<exists>result. get_legos_stepped_on rnd e True (Some shoe_size) df =
           Inr (Some (result, n + 1))"
proof -
  have "0 < length (filter is_token_candidate df)" using assms(4) by simp
  then have "\<not> int (length (filter is_token_candidate df)) < 1" by linarith
  then show ?thesis
    using assms(1-3) by (simp add: get_legos_stepped_on_def sample_def)
qed

lemma example_num: "get_num_legos_stepped_on id 13 5 = Inr 3"
  by (simp add: get_num_legos_stepped_on_def get_area_of_foot_def Let_def py_int_def
      randint_def)

lemma unlucky_num: "get_num_legos_stepped_on id 0 2 = Inr (- 10)"
  by (simp add: get_num_legos_stepped_on_def get_area_of_foot_def Let_def py_int_def
      randint_def)

lemma example_base: "sample [2, 0, 4] example_pile 3 = Inr [duplo_brick, brick, duplo_brick]"
  by code_simp

lemma example_token: "sample [0] (filter is_token_candidate example_pile) 1 = Inr [minifig_head]"
  by code_simp

lemma example_step:
  "get_legos_stepped_on id example_entropy True (Some 5) example_pile =
     Inr (Some ([duplo_brick, brick, duplo_brick, minifig_head], 4))"
  by (simp add: get_legos_stepped_on_def example_entropy_def example_num example_base
      example_token)

theorem step_rows_and_count_witness:
  "get_legos_stepped_on id example_entropy True (Some 5) example_pile =
     Inr (Some ([duplo_brick, brick, duplo_brick, minifig_head], 4)) \<and>
   get_num_legos_stepped_on id (offset_draw example_entropy) 5 = Inr 3 \<and>
   length example_pile = 5 \<and>
   length [duplo_brick, brick, duplo_brick, minifig_head] = 3 + 1"
proof -
  from step_rows_and_count [OF example_step] obtain n where
    "get_num_legos_stepped_on id (offset_draw example_entropy) 5 = Inr n"
    "int (length [duplo_brick, brick, duplo_brick, minifig_head]) = n + 1"
    by blast
  then show ?thesis
    using example_step by (simp add: example_pile_def)
qed

lemma randint_range:
  assumes "low < high"
  shows "low \<le> randint k low high" and "randint k low high < high"
proof -
  have "0 \<le> int k mod (high - low)" "int k mod (high - low) < high - low"
    using assms by simp_all
  then show "low \<le> randint k low high" and "randint k low high < high"
    unfolding randint_def by linarith+
qed

lemma area_exact: "get_area_of_foot id s = 7 / 45 * (of_int (s - 2))\<^sup>2"
proof -
  define x :: real where "x = of_int (s - 2)"
  have "2 / 3 * x * (0.35 * (2 / 3 * x)) = 7 / 45 * x\<^sup>2"
    by (simp add: power2_eq_square)
  then show ?thesis
    unfolding get_area_of_foot_def Let_def x_def id_apply .
qed

text \<open>
  For the shoe sizes of the select box (30 to 49), and any larger one, the estimate is at
  least 34 in exact arithmetic: a negative estimate needs a smaller shoe size.
\<close>

lemma selector_sizes_estimate:
  assumes "30 \<le> shoe_size" and "get_num_legos_stepped_on id k shoe_size = Inr n"
  shows "34 \<le> n"
proof -
  define x :: real where "x = of_int (shoe_size - 2)"
  have x: "28 \<le> x" unfolding x_def using assms(1) by simp
  have "28 * 28 \<le> x * x" using x by (intro mult_mono) simp_all
  then have sq: "784 \<le> x\<^sup>2" by (simp add: power2_eq_square)
  have n: "n = py_int (7 / 45 * x\<^sup>2 / (2.34 * 2.34) * 2) + randint k (- 10) 10"
    using assms(2)
    by (simp add: get_num_legos_stepped_on_def Let_def area_exact x_def)
  have "(44::real) \<le> 7 / 45 * x\<^sup>2 / (2.34 * 2.34) * 2"
    using sq by (simp add: field_simps)
  then have "44 \<le> py_int (7 / 45 * x\<^sup>2 / (2.34 * 2.34) * 2)"
    unfolding py_int_def by (simp add: le_floor_iff)
  moreover have "- 10 \<le> randint k (- 10) 10" by (rule randint_range) simp
  ultimately show ?thesis unfolding n by linarith
qed

text \<open>
  C4, as the code has it. The estimated piece count is handed to the base draw as it is:
  there is no clamp. When the estimate is negative the base draw is asked for a negative
  number of rows, fails with a \<open>ValueError\<close>, and the trial ends with that error.
\<close>

theorem negative_estimate_raises:
  assumes "get_num_legos_stepped_on rnd (offset_draw e) shoe_size = Inr n" and "n < 0"
  shows "get_legos_stepped_on rnd e True (Some shoe_size) df = Inl (ValueError NegativeRows)"
  using assms by (simp add: get_legos_stepped_on_def sample_negative)

theorem negative_estimate_raises_witness:
  "get_num_legos_stepped_on id (offset_draw unlucky_entropy) 2 = Inr (- 10) \<and>
   (- 10 :: int) < 0 \<and>
   get_legos_stepped_on id unlucky_entropy True (Some 2) [minifig_head] =
     Inl (ValueError NegativeRows)"
proof -
  have n: "get_num_legos_stepped_on id (offset_draw unlucky_entropy) 2 = Inr (- 10)"
    by (simp add: unlucky_entropy_def unlucky_num)
  have neg: "(- 10 :: int) < 0" by simp
  show ?thesis
    using n negative_estimate_raises [OF n neg, of "[minifig_head]"] by simp
qed

theorem negative_estimate_counterexample:
  "get_num_legos_stepped_on id 0 2 = Inr (- 10) \<and>
   get_legos_stepped_on id unlucky_entropy True (Some 2) example_pile =
     Inl (ValueError NegativeRows)"
  by (simp add: unlucky_num get_legos_stepped_on_def unlucky_entropy_def sample_negative)

text \<open>
  C6, as the code has it. \<open>get_legos_stepped_on\<close> has no handler. When the working dataset
  has no row of category \<open>Minifig Heads\<close> with an image, a trial that takes a step ends with
  an error: it returns neither the base sample nor anything else. When the estimate and the
  base draw succeed, the error is the \<open>ValueError\<close> of the draw of the token minifig head.
\<close>

theorem missing_token_raises:
  assumes "filter is_token_candidate df = []"
  shows "(\<exists>err. get_legos_stepped_on rnd e True choose_shoe_size df = Inl err) \<and>
         (\<forall>shoe_size n base.
            choose_shoe_size = Some shoe_size \<longrightarrow>
            get_num_legos_stepped_on rnd (offset_draw e) shoe_size = Inr n \<longrightarrow>
            sample (base_draw e) df n = Inr base \<longrightarrow>
            get_legos_stepped_on rnd e True choose_shoe_size df =
              Inl (ValueError LargerThanPopulation))"
proof (intro conjI allI impI)
  show "\<exists>err. get_legos_stepped_on rnd e True choose_shoe_size df = Inl err"
    by (simp add: get_legos_stepped_on_def assms sample_empty_one
        split: option.splits sum.splits)
next
  fix shoe_size n base
  assume "choose_shoe_size = Some shoe_size"
    and "get_num_legos_stepped_on rnd (offset_draw e) shoe_size = Inr n"
    and "sample (base_draw e) df n = Inr base"
  then show "get_legos_stepped_on rnd e True choose_shoe_size df =
      Inl (ValueError LargerThanPopulation)"
    by (simp add: get_legos_stepped_on_def assms sample_empty_one)
qed

lemma headless_base:
  "sample [2, 0, 4] headless_pile 3 = Inr [duplo_brick, brick, duplo_brick]"
  by code_simp

lemma headless_candidates:
  "filter is_token_candidate headless_pile = []"
  by (simp add: headless_pile_def is_token_candidate_def brick_def duplo_brick_def)

lemma single_duplo_num: "get_num_legos_stepped_on id 11 5 = Inr 1"
  by (simp add: get_num_legos_stepped_on_def get_area_of_foot_def Let_def py_int_def
      randint_def)

lemma single_duplo_base: "sample [] [duplo_brick] 1 = Inr [duplo_brick]"
  by code_simp

lemma single_duplo_candidates: "filter is_token_candidate [duplo_brick] = []"
  by (simp add: is_token_candidate_def duplo_brick_def)

theorem missing_token_raises_witness:
  "filter is_token_candidate [duplo_brick] = [] \<and>
   get_num_legos_stepped_on id (offset_draw single_duplo_entropy) 5 = Inr 1 \<and>
   sample (base_draw single_duplo_entropy) [duplo_brick] 1 = Inr [duplo_brick] \<and>
   get_legos_stepped_on id single_duplo_entropy True (Some 5) [duplo_brick] =
     Inl (ValueError LargerThanPopulation)"
proof -
  have n: "get_num_legos_stepped_on id (offset_draw single_duplo_entropy) 5 = Inr 1"
    by (simp add: single_duplo_entropy_def single_duplo_num)
  have b: "sample (base_draw single_duplo_entropy) [duplo_brick] 1 = Inr [duplo_brick]"
    by (simp add: single_duplo_entropy_def single_duplo_base)
  have "get_legos_stepped_on id single_duplo_entropy True (Some 5) [duplo_brick] =
      Inl (ValueError LargerThanPopulation)"
    using missing_token_raises [OF single_duplo_candidates, of id single_duplo_entropy "Some 5"]
      n b
    by blast
  then show ?thesis using single_duplo_candidates n b by simp
qed

theorem missing_token_counterexample:
  "sample (base_draw example_entropy) headless_pile 3 =
     Inr [duplo_brick, brick, duplo_brick] \<and>
   get_legos_stepped_on id example_entropy True (Some 5) headless_pile =
     Inl (ValueError LargerThanPopulation)"
  by (simp add: get_legos_stepped_on_def example_entropy_def example_num headless_base
      headless_candidates sample_empty_one)

section \<open>The catalog builder\<close>

subsection \<open>Exploding quantities\<close>

lemma apply_repeat_Inr:
  assumes "apply_repeat inventory = Inr rows"
  shows "rows = map (\<lambda>r. (r, replicate (nat (quantity r)) 1)) inventory"
  using assms
proof (induction inventory arbitrary: rows)
  case Nil
  then show ?case by simp
next
  case (Cons r rs)
  from Cons.prems obtain ones rows' where
    o: "np_repeat 1 (quantity r) = Inr ones" and
    a: "apply_repeat rs = Inr rows'" and
    e: "rows = (r, ones) # rows'"
    by (auto split: sum.splits)
  have "ones = replicate (nat (quantity r)) 1"
    using o by (auto simp: np_repeat_def split: if_splits)
  then show ?case using Cons.IH [OF a] e by simp
qed

lemma explode_Nil: "explode [] = []"
  by (simp add: explode_def)

lemma explode_Cons: "explode ((r, vs) # rows) = explode_row r vs @ explode rows"
  by (simp add: explode_def)



lemma length_explode_row: "length (explode_row r vs) = max 1 (length vs)"
  by (cases vs) simp_all

lemma length_explode:
  "length (explode rows) = (\<Sum>row\<leftarrow>rows. max 1 (length (snd row)))"
proof (induction rows)
  case Nil
  show ?case by (simp add: explode_Nil)
next
  case (Cons a rows)
  obtain r vs where a: "a = (r, vs)" by (cases a)
  show ?case unfolding a explode_Cons using Cons.IH by (simp add: length_explode_row)
qed


lemma explode_row_count:
  assumes "explode_inventory_parts inventory = Inr pieces"
  shows "length pieces = (\<Sum>i\<leftarrow>inventory. max 1 (nat (quantity i)))"
proof -
  from assms obtain rows where
    a: "apply_repeat inventory = Inr rows" and p: "pieces = map drop_quantity (explode rows)"
    by (auto simp: explode_inventory_parts_def split: sum.splits)
  have "length pieces = (\<Sum>row\<leftarrow>rows. max 1 (length (snd row)))"
    unfolding p by (simp add: length_explode)
  also have "\<dots> = (\<Sum>i\<leftarrow>inventory. max 1 (nat (quantity i)))"
    unfolding apply_repeat_Inr [OF a] by (simp add: comp_def)
  finally show ?thesis .
qed

text \<open>
  C3 at the input where the code leaves the claim: one inventory row of quantity 0. The
  claim asks for no output row; \<open>explode\<close> keeps the row of an empty list, so one unit
  piece comes out.
\<close>

theorem explode_quantity_zero:
  "explode_inventory_parts spare_inventory =
     Inr [\<lparr>pc_part_num = ''3001'', pc_color_id = 4, pc_img_url = Some ''3001.png''\<rparr>]"
  by (simp add: explode_inventory_parts_def spare_inventory_def np_repeat_def explode_def
      drop_quantity_def)

subsection \<open>Left joins\<close>




lemma set_remove_non_lego:
  "set (remove_non_lego lego_pile) =
     {r \<in> set lego_pile. part_cat_name r \<noteq> Some ''Other'' \<and> part_cat_name r \<noteq> Some ''Stickers''}"
  by (auto simp: remove_non_lego_def)

lemma create_tailored_data_Inr:
  assumes "create_tailored_data n ks inventory parts cats cols = Inr wd"
  shows "\<exists>pieces. explode_inventory_parts inventory = Inr pieces \<and>
           set wd \<subseteq> set (remove_non_lego (merge_tables pieces parts cats cols))"
proof -
  from assms obtain pieces where
    p: "explode_inventory_parts inventory = Inr pieces" and
    s: "sample ks (remove_non_lego (merge_tables pieces parts cats cols)) n = Inr wd"
    by (auto simp: create_tailored_data_def split: sum.splits)
  from sample_set [OF s] p show ?thesis by blast
qed





lemma example_tailored:
  "create_tailored_data 2 [1, 0] example_inventory example_parts example_categories
     example_colors = Inr [brick, brick]"
  by code_simp






subsection \<open>The filter\<close>

text \<open>
  C9. The filter keeps no row whose category name is \<open>Other\<close> or \<open>Stickers\<close>, whatever the
  rows are; so no row of the working dataset has either name.
\<close>

theorem filter_excludes_other_and_stickers:
  "(\<forall>r\<in>set (remove_non_lego lego_pile).
      part_cat_name r \<noteq> Some ''Other'' \<and> part_cat_name r \<noteq> Some ''Stickers'') \<and>
   (\<forall>wd. create_tailored_data n ks inventory parts cats cols = Inr wd \<longrightarrow>
      (\<forall>r\<in>set wd. part_cat_name r \<noteq> Some ''Other'' \<and> part_cat_name r \<noteq> Some ''Stickers''))"
proof (intro conjI allI impI ballI)
  fix wd r
  assume "create_tailored_data n ks inventory parts cats cols = Inr wd" and "r \<in> set wd"
  with create_tailored_data_Inr obtain pieces where
    "r \<in> set (remove_non_lego (merge_tables pieces parts cats cols))"
    by blast
  then show "part_cat_name r \<noteq> Some ''Other''" and "part_cat_name r \<noteq> Some ''Stickers''"
    by (simp_all add: set_remove_non_lego)
qed (simp_all add: set_remove_non_lego)

theorem filter_excludes_other_and_stickers_witness:
  "remove_non_lego [brick, sticker_sheet, brick] = [brick, brick] \<and>
   create_tailored_data 2 [1, 0] example_inventory example_parts example_categories
     example_colors = Inr [brick, brick] \<and>
   part_cat_name brick \<noteq> Some ''Other'' \<and> part_cat_name brick \<noteq> Some ''Stickers''"
proof -
  have f: "remove_non_lego [brick, sticker_sheet, brick] = [brick, brick]"
    by (simp add: remove_non_lego_def brick_def sticker_sheet_def)
  have "\<forall>r\<in>set [brick, brick].
      part_cat_name r \<noteq> Some ''Other'' \<and> part_cat_name r \<noteq> Some ''Stickers''"
    using filter_excludes_other_and_stickers
      [of "[brick, sticker_sheet, brick]" 2 "[1, 0]" example_inventory example_parts
         example_categories example_colors]
    unfolding f by (rule conjunct1)
  then show ?thesis using f example_tailored by simp
qed

end
